theory Spec2Isabelle
  imports Complex_Main "HOL-Library.Sublist"
begin

section \<open>The booking server of \<^verbatim>\<open>src/server.js\<close>\<close>

text \<open>
  The server is a thin layer over the JavaScript runtime: \<^verbatim>\<open>JSON.parse\<close>,
  \<^verbatim>\<open>JSON.stringify\<close>, \<^verbatim>\<open>fs\<close>, \<^verbatim>\<open>URL\<close>, \<^verbatim>\<open>Date\<close>. The embedding starts
  where the server's own code starts: a text is represented by what \<^verbatim>\<open>JSON.parse\<close>
  makes of it, a URL by what \<^verbatim>\<open>searchParams.get('id')\<close> returns for it, the clock
  by the two values read from it. Everything the handlers do with these values is
  modelled statement by statement, exceptions included.
\<close>

subsection \<open>Values\<close>

text \<open>
  The values \<^verbatim>\<open>JSON.parse\<close> returns. An object is its list of own properties in
  property order. Strings are lists of code units (below 256). A number carries its
  exact value; rounding to binary64 and the overflow of a numeral to
  \<^verbatim>\<open>Infinity\<close> are outside the embedding.
\<close>

datatype jsval =
    JNull
  | JBool bool
  | JNum rat
  | JStr string
  | JArr "jsval list"
  | JObj "(string \<times> jsval) list"

text \<open>What \<^verbatim>\<open>Number(s)\<close> returns: a JSON number never is \<^verbatim>\<open>NaN\<close>, this one can be.\<close>

datatype jsnum = NaN | PosInfinity | NegInfinity | Finite rat

datatype exn = SyntaxError | TypeError | IOError

text \<open>Truthiness (\<^verbatim>\<open>ToBoolean\<close>); \<open>None\<close> stands for \<^verbatim>\<open>undefined\<close>.\<close>

fun truthy :: "jsval option \<Rightarrow> bool" where
  "truthy None = False"
| "truthy (Some JNull) = False"
| "truthy (Some (JBool b)) = b"
| "truthy (Some (JNum r)) = (r \<noteq> 0)"
| "truthy (Some (JStr s)) = (s \<noteq> [])"
| "truthy (Some (JArr vs)) = True"
| "truthy (Some (JObj kvs)) = True"

text \<open>
  \<^verbatim>\<open>b.id\<close>: a \<^verbatim>\<open>TypeError\<close> on \<^verbatim>\<open>null\<close>, the own property of an object, and
  \<^verbatim>\<open>undefined\<close> on everything else \<^verbatim>\<open>JSON.parse\<close> returns (no prototype of
  theirs has a property \<^verbatim>\<open>id\<close>).
\<close>

fun get_id :: "jsval \<Rightarrow> exn + jsval option" where
  "get_id JNull = Inl TypeError"
| "get_id (JObj kvs) = Inr (map_of kvs ''id'')"
| "get_id v = Inr None"

text \<open>
  \<^verbatim>\<open>x === id\<close> for a number \<^verbatim>\<open>id\<close>: true only for a number of the same value, and
  never for \<^verbatim>\<open>NaN\<close>.
\<close>

fun strict_eq :: "jsval option \<Rightarrow> jsnum \<Rightarrow> bool" where
  "strict_eq (Some (JNum r)) (Finite q) = (r = q)"
| "strict_eq v n = False"

text \<open>
  \<^verbatim>\<open>o[k] = v\<close> on the property list of an object, for a key that is not an array
  index: an existing property keeps its place and takes the value, a new one goes last.
\<close>

fun put :: "string \<Rightarrow> jsval \<Rightarrow> (string \<times> jsval) list \<Rightarrow> (string \<times> jsval) list" where
  "put k v [] = [(k, v)]"
| "put k v (p # ps) = (if fst p = k then (k, v) # ps else p # put k v ps)"

text \<open>
  \<^verbatim>\<open>data[k] = v\<close> in sloppy mode (the file has no \<^verbatim>\<open>'use strict'\<close>), for
  \<open>k\<close> one of \<^verbatim>\<open>id\<close>, \<^verbatim>\<open>timestamp\<close>. The result is the value as
  \<^verbatim>\<open>JSON.stringify\<close> will see it: on \<^verbatim>\<open>null\<close> the assignment throws; on an array
  it adds a property that is no element and is not serialised; on a number, a string or
  a boolean it does nothing.
\<close>

fun assign :: "jsval \<Rightarrow> string \<Rightarrow> jsval \<Rightarrow> exn + jsval" where
  "assign JNull k v = Inl TypeError"
| "assign (JObj kvs) k v = Inr (JObj (put k v kvs))"
| "assign d k v = Inr d"

text \<open>
  Reading \<^verbatim>\<open>data.id\<close> back after \<^verbatim>\<open>data.id = v\<close>: objects and arrays hold the
  property, primitives do not.
\<close>

fun id_after_assign :: "jsval \<Rightarrow> jsval \<Rightarrow> jsval option" where
  "id_after_assign (JObj kvs) v = Some v"
| "id_after_assign (JArr vs) v = Some v"
| "id_after_assign d v = None"

text \<open>\<^verbatim>\<open>bookings.push(data)\<close>: only an array has the method.\<close>

fun push :: "jsval \<Rightarrow> jsval \<Rightarrow> exn + jsval" where
  "push (JArr bs) d = Inr (JArr (bs @ [d]))"
| "push b d = Inl TypeError"

subsection \<open>\<^verbatim>\<open>Number(idParam)\<close>\<close>

text \<open>
  The conversion of a string to a number (\<^verbatim>\<open>StringToNumber\<close>): white space is
  trimmed, the empty string is 0, then a signed decimal literal, \<^verbatim>\<open>Infinity\<close>, or
  an unsigned binary, octal or hexadecimal literal; anything else is \<^verbatim>\<open>NaN\<close>.
\<close>

definition is_space :: "char \<Rightarrow> bool" where
  "is_space c = (c \<in> set [CHR 0x09, CHR 0x0A, CHR 0x0B, CHR 0x0C, CHR 0x0D, CHR 0x20, CHR 0xA0])"

definition trim :: "string \<Rightarrow> string" where
  "trim s = rev (dropWhile is_space (rev (dropWhile is_space s)))"

definition digit_of :: "char \<Rightarrow> nat option" where
  "digit_of c =
     (let n = of_char c :: nat in
      if 48 \<le> n \<and> n \<le> 57 then Some (n - 48)
      else if 97 \<le> n \<and> n \<le> 102 then Some (n - 87)
      else if 65 \<le> n \<and> n \<le> 70 then Some (n - 55)
      else None)"

fun digits_acc :: "nat \<Rightarrow> nat \<Rightarrow> string \<Rightarrow> nat option" where
  "digits_acc base acc [] = Some acc"
| "digits_acc base acc (c # cs) =
     (case digit_of c of
        None \<Rightarrow> None
      | Some d \<Rightarrow> if d < base then digits_acc base (acc * base + d) cs else None)"

text \<open>The value of a string of digits; \<open>None\<close> when it holds anything else.\<close>

definition digits :: "nat \<Rightarrow> string \<Rightarrow> nat option" where
  "digits base s = digits_acc base 0 s"

definition not_exp :: "char \<Rightarrow> bool" where
  "not_exp c = (c \<noteq> CHR ''e'' \<and> c \<noteq> CHR ''E'')"

definition not_dot :: "char \<Rightarrow> bool" where
  "not_dot c = (c \<noteq> CHR ''.'')"

text \<open>The exponent part: empty, or \<^verbatim>\<open>e\<close>, a sign and at least one digit.\<close>

definition exponent :: "string \<Rightarrow> int option" where
  "exponent s =
     (case s of
        [] \<Rightarrow> Some 0
      | e # t \<Rightarrow>
          (case t of
             [] \<Rightarrow> None
           | c # u \<Rightarrow>
               if c = CHR ''-'' then
                 (if u = [] then None else map_option (\<lambda>n. - int n) (digits 10 u))
               else if c = CHR ''+'' then
                 (if u = [] then None else map_option int (digits 10 u))
               else map_option int (digits 10 t)))"

text \<open>
  The mantissa: digits, digits with a fraction, or a fraction alone
  (\<^verbatim>\<open>12\<close>, \<^verbatim>\<open>12.\<close>, \<^verbatim>\<open>12.5\<close>, \<^verbatim>\<open>.5\<close>).
\<close>

definition mantissa :: "string \<Rightarrow> rat option" where
  "mantissa s =
     (let ip = takeWhile not_dot s; r = dropWhile not_dot s in
      if r = [] then (if ip = [] then None else map_option of_nat (digits 10 ip))
      else
        (let fp = tl r in
         if ip = [] \<and> fp = [] then None
         else
           (case (digits 10 ip, digits 10 fp) of
              (Some i, Some f) \<Rightarrow> Some (of_nat i + of_nat f / 10 ^ length fp)
            | _ \<Rightarrow> None)))"

definition scale :: "rat \<Rightarrow> int \<Rightarrow> rat" where
  "scale m e = (if 0 \<le> e then m * 10 ^ nat e else m / 10 ^ nat (- e))"

definition unsigned_decimal :: "string \<Rightarrow> jsnum" where
  "unsigned_decimal s =
     (if s = ''Infinity'' then PosInfinity
      else
        (case (mantissa (takeWhile not_exp s), exponent (dropWhile not_exp s)) of
           (Some m, Some e) \<Rightarrow> Finite (scale m e)
         | _ \<Rightarrow> NaN))"

fun negate :: "jsnum \<Rightarrow> jsnum" where
  "negate NaN = NaN"
| "negate PosInfinity = NegInfinity"
| "negate NegInfinity = PosInfinity"
| "negate (Finite r) = Finite (- r)"

definition radix_literal :: "nat \<Rightarrow> string \<Rightarrow> jsnum" where
  "radix_literal base s =
     (if s = [] then NaN
      else (case digits base s of None \<Rightarrow> NaN | Some n \<Rightarrow> Finite (of_nat n)))"

definition Number_js :: "string \<Rightarrow> jsnum" where
  "Number_js s =
     (let t = trim s in
      if t = [] then Finite 0
      else if take 2 t = ''0x'' \<or> take 2 t = ''0X'' then radix_literal 16 (drop 2 t)
      else if take 2 t = ''0o'' \<or> take 2 t = ''0O'' then radix_literal 8 (drop 2 t)
      else if take 2 t = ''0b'' \<or> take 2 t = ''0B'' then radix_literal 2 (drop 2 t)
      else if hd t = CHR ''+'' then unsigned_decimal (tl t)
      else if hd t = CHR ''-'' then negate (unsigned_decimal (tl t))
      else unsigned_decimal t)"

subsection \<open>The persisted document and the runtime around a request\<close>

text \<open>
  A text, as \<^verbatim>\<open>JSON.parse\<close> sees it: one it rejects, or one it reads as a value.
  \<^verbatim>\<open>JSON.stringify(v, null, 2)\<close> writes a text that reads back as \<open>v\<close>; this is
  the runtime's contract for the values \<^verbatim>\<open>JSON.parse\<close> returns, and it is built
  into the representation, not proved here.
\<close>

datatype jtext = Garbage | Json jsval

definition JSON_parse :: "jtext \<Rightarrow> exn + jsval" where
  "JSON_parse t = (case t of Garbage \<Rightarrow> Inl SyntaxError | Json v \<Rightarrow> Inr v)"

definition JSON_stringify :: "jsval \<Rightarrow> jtext" where
  "JSON_stringify v = Json v"

text \<open>The file \<^verbatim>\<open>bookings.json\<close>: absent (or unreadable), or holding a text.\<close>

datatype bookingsFile = Absent | Contents jtext

text \<open>
  What a request finds around it: the value of \<^verbatim>\<open>Date.now()\<close>, the string of
  \<^verbatim>\<open>new Date().toISOString()\<close>, and whether \<^verbatim>\<open>fs.writeFileSync\<close> succeeds.
\<close>

record env =
  now :: int
  iso :: string
  write_ok :: bool

definition readFileSync :: "bookingsFile \<Rightarrow> exn + jtext" where
  "readFileSync f = (case f of Absent \<Rightarrow> Inl IOError | Contents t \<Rightarrow> Inr t)"

text \<open>A failed write throws; what it leaves in the file is not modelled.\<close>

definition writeFileSync :: "env \<Rightarrow> jtext \<Rightarrow> exn + bookingsFile" where
  "writeFileSync e t = (if write_ok e then Inr (Contents t) else Inl IOError)"

text \<open>\<^verbatim>\<open>readBookings\<close> (lines 15-23): both calls stand in one \<^verbatim>\<open>try\<close>.\<close>

definition readBookings :: "bookingsFile \<Rightarrow> jsval" where
  "readBookings f =
     (case readFileSync f of
        Inl err \<Rightarrow> JArr []
      | Inr data \<Rightarrow>
          (case JSON_parse data of
             Inl err \<Rightarrow> JArr []
           | Inr v \<Rightarrow> v))"

text \<open>\<^verbatim>\<open>saveBookings\<close> (lines 31-33).\<close>

definition saveBookings :: "env \<Rightarrow> jsval \<Rightarrow> exn + bookingsFile" where
  "saveBookings e bookings = writeFileSync e (JSON_stringify bookings)"

subsection \<open>Requests and what becomes of them\<close>

text \<open>
  A request as the handler meets it: method and url, the value of
  \<^verbatim>\<open>parsedUrl.searchParams.get('id')\<close> for that url, the body as the chunks of its
  \<^verbatim>\<open>data\<close> events, and the complete body as a text.
\<close>

record request =
  req_method :: string
  url :: string
  query_id :: "string option"
  chunks :: "string list"
  body_text :: jtext

text \<open>
  What the handler does with the request: it answers (status, content type and the
  value passed to \<^verbatim>\<open>JSON.stringify\<close> for the body), it lets an exception escape, it
  destroys the connection, or it hands the request to the static file server.
\<close>

datatype outcome =
    Reply nat string jsval
  | Uncaught exn
  | Aborted
  | Static

text \<open>What the handler did to the file.\<close>

datatype disk = Untouched | Saved bookingsFile | SaveFailed

definition json_reply :: "nat \<Rightarrow> jsval \<Rightarrow> outcome" where
  "json_reply code v = Reply code ''application/json'' v"

text \<open>
  The three error messages are Portuguese; their accented letters are the code units
  0xE1 and 0xE3.
\<close>

definition dados_invalidos :: string where
  "dados_invalidos = ''Dados inv'' @ [CHR 0xE1] @ ''lidos''"

definition id_nao_especificado :: string where
  "id_nao_especificado = ''ID n'' @ [CHR 0xE3] @ ''o especificado''"

definition registro_nao_encontrado :: string where
  "registro_nao_encontrado = ''Registro n'' @ [CHR 0xE3] @ ''o encontrado''"

definition error_body :: "string \<Rightarrow> jsval" where
  "error_body msg = JObj [(''error'', JStr msg)]"

subsection \<open>Reading a request body\<close>

record reader =
  body :: string
  destroyed :: bool

definition reader0 :: reader where
  "reader0 = \<lparr>body = [], destroyed = False\<rparr>"

text \<open>The \<^verbatim>\<open>data\<close> listener of \<^verbatim>\<open>POST /api/book\<close> (lines 96-102).\<close>

definition book_on_data :: "reader \<Rightarrow> string \<Rightarrow> reader" where
  "book_on_data r chunk =
     (let b = body r @ chunk in
      if length b > 1000000 then \<lparr>body = b, destroyed = True\<rparr>
      else \<lparr>body = b, destroyed = destroyed r\<rparr>)"

text \<open>The \<^verbatim>\<open>data\<close> listener of \<^verbatim>\<open>POST /api/delete\<close> (line 154).\<close>

definition delete_on_data :: "reader \<Rightarrow> string \<Rightarrow> reader" where
  "delete_on_data r chunk = \<lparr>body = body r @ chunk, destroyed = destroyed r\<rparr>"

text \<open>The chunks arrive one by one for as long as the connection stands.\<close>

fun feed :: "(reader \<Rightarrow> string \<Rightarrow> reader) \<Rightarrow> reader \<Rightarrow> string list \<Rightarrow> reader" where
  "feed on_data r [] = r"
| "feed on_data r (c # cs) = (if destroyed r then r else feed on_data (on_data r c) cs)"

subsection \<open>\<^verbatim>\<open>POST /api/book\<close>\<close>

text \<open>
  The \<^verbatim>\<open>end\<close> listener (lines 103-118). Every statement of the \<^verbatim>\<open>try\<close> block
  can throw, and the one \<^verbatim>\<open>catch\<close> answers 400 whatever was thrown.
\<close>

definition book_on_end :: "env \<Rightarrow> bookingsFile \<Rightarrow> jtext \<Rightarrow> outcome \<times> disk" where
  "book_on_end e f body_txt =
     (let invalid = json_reply 400 (error_body dados_invalidos) in
      case JSON_parse body_txt of
        Inl err \<Rightarrow> (invalid, Untouched)
      | Inr data \<Rightarrow>
          (let bookings = readBookings f;
               id' = JNum (of_int (now e)) in
           case assign data ''id'' id' of
             Inl err \<Rightarrow> (invalid, Untouched)
           | Inr data1 \<Rightarrow>
               (case assign data1 ''timestamp'' (JStr (iso e)) of
                  Inl err \<Rightarrow> (invalid, Untouched)
                | Inr data2 \<Rightarrow>
                    (case push bookings data2 of
                       Inl err \<Rightarrow> (invalid, Untouched)
                     | Inr bookings2 \<Rightarrow>
                         (case saveBookings e bookings2 of
                            Inl err \<Rightarrow> (invalid, SaveFailed)
                          | Inr f2 \<Rightarrow>
                              (json_reply 200
                                 (JObj ((''success'', JBool True) #
                                    (case id_after_assign data id' of
                                       None \<Rightarrow> []
                                     | Some v \<Rightarrow> [(''id'', v)]))),
                               Saved f2))))))"

text \<open>
  The handler: the body is read under the cap, then the \<^verbatim>\<open>end\<close> listener runs on
  the complete body. A destroyed connection gets no answer; that no \<^verbatim>\<open>end\<close> event
  follows the destruction is taken from the runtime, not from the code.
\<close>

definition book_handler :: "env \<Rightarrow> bookingsFile \<Rightarrow> request \<Rightarrow> outcome \<times> disk" where
  "book_handler e f rq =
     (if destroyed (feed book_on_data reader0 (chunks rq)) then (Aborted, Untouched)
      else book_on_end e f (body_text rq))"

subsection \<open>\<^verbatim>\<open>GET /api/bookings\<close>\<close>

definition bookings_handler :: "bookingsFile \<Rightarrow> outcome \<times> disk" where
  "bookings_handler f = (json_reply 200 (readBookings f), Untouched)"

subsection \<open>\<^verbatim>\<open>/api/delete\<close>\<close>

text \<open>The callback of the filter, \<^verbatim>\<open>b => b.id !== id\<close>.\<close>

definition keeps :: "jsnum \<Rightarrow> jsval \<Rightarrow> exn + bool" where
  "keeps id' b = (case get_id b of Inl err \<Rightarrow> Inl err | Inr v \<Rightarrow> Inr (\<not> strict_eq v id'))"

text \<open>\<^verbatim>\<open>Array.prototype.filter\<close> with a callback that can throw.\<close>

fun filter_js :: "(jsval \<Rightarrow> exn + bool) \<Rightarrow> jsval list \<Rightarrow> exn + jsval list" where
  "filter_js p [] = Inr []"
| "filter_js p (b # bs) =
     (case p b of
        Inl err \<Rightarrow> Inl err
      | Inr k \<Rightarrow>
          (case filter_js p bs of
             Inl err \<Rightarrow> Inl err
           | Inr r \<Rightarrow> Inr (if k then b # r else r)))"

text \<open>
  \<^verbatim>\<open>sendResponse\<close> (lines 132-150), a closure over \<^verbatim>\<open>idParam\<close>. Nothing catches
  what it throws: \<^verbatim>\<open>bookings.filter\<close> on a value that is no array, \<^verbatim>\<open>b.id\<close> on a
  \<^verbatim>\<open>null\<close> element, a failed write.
\<close>

definition sendResponse :: "env \<Rightarrow> bookingsFile \<Rightarrow> string option \<Rightarrow> outcome \<times> disk" where
  "sendResponse e f idParam =
     (case idParam of
        None \<Rightarrow> (json_reply 400 (error_body id_nao_especificado), Untouched)
      | Some s \<Rightarrow>
          if s = [] then (json_reply 400 (error_body id_nao_especificado), Untouched)
          else
            (let id' = Number_js s in
             case readBookings f of
               JArr bookings \<Rightarrow>
                 (let originalLength = length bookings in
                  case filter_js (keeps id') bookings of
                    Inl err \<Rightarrow> (Uncaught err, Untouched)
                  | Inr kept \<Rightarrow>
                      if length kept = originalLength
                      then (json_reply 404 (error_body registro_nao_encontrado), Untouched)
                      else
                        (case saveBookings e (JArr kept) of
                           Inl err \<Rightarrow> (Uncaught err, SaveFailed)
                         | Inr f2 \<Rightarrow> (json_reply 200 (JObj [(''success'', JBool True)]), Saved f2)))
             | other \<Rightarrow> (Uncaught TypeError, Untouched)))"

text \<open>
  The \<^verbatim>\<open>id\<close> entry of \<^verbatim>\<open>parsedUrl.searchParams\<close>: none, the string of the url, or
  the string of a value given to \<^verbatim>\<open>searchParams.set\<close>.
\<close>

datatype id_entry = NoEntry | FromUrl string | StringOf jsval

definition entry_of :: "string option \<Rightarrow> id_entry" where
  "entry_of q = (case q of None \<Rightarrow> NoEntry | Some s \<Rightarrow> FromUrl s)"

text \<open>
  The \<^verbatim>\<open>try\<close> block of the \<^verbatim>\<open>end\<close> listener of a POST (lines 156-161), as the
  \<^verbatim>\<open>id\<close> entry of \<^verbatim>\<open>parsedUrl\<close> it leaves behind. The test is
  \<^verbatim>\<open>data && data.id\<close>; a body that does not parse leaves the entry alone.
\<close>

definition delete_on_end :: "id_entry \<Rightarrow> jtext \<Rightarrow> id_entry" where
  "delete_on_end entry body_txt =
     (case JSON_parse body_txt of
        Inl err \<Rightarrow> entry
      | Inr data \<Rightarrow>
          if truthy (Some data) then
            (case get_id data of
               Inl err \<Rightarrow> entry
             | Inr None \<Rightarrow> entry
             | Inr (Some v) \<Rightarrow> if truthy (Some v) then StringOf v else entry)
          else entry)"

text \<open>
  The handler (lines 128-168). \<^verbatim>\<open>idParam\<close> is a \<^verbatim>\<open>const\<close> read from the url
  before any body arrives; the listener of a POST changes \<^verbatim>\<open>parsedUrl\<close> and then
  calls \<^verbatim>\<open>sendResponse\<close>, which reads \<^verbatim>\<open>idParam\<close>. Beside the answer, a run
  shows the \<^verbatim>\<open>id\<close> entry \<^verbatim>\<open>parsedUrl\<close> ends with and the body that was buffered.
\<close>

record delete_run =
  answer :: "outcome \<times> disk"
  parsedUrl_id :: id_entry
  received :: reader

definition delete_handler :: "env \<Rightarrow> bookingsFile \<Rightarrow> request \<Rightarrow> delete_run" where
  "delete_handler e f rq =
     (let parsedUrl = entry_of (query_id rq);
          idParam = query_id rq in
      if req_method rq = ''POST'' then
        (let r = feed delete_on_data reader0 (chunks rq);
             parsedUrl2 = delete_on_end parsedUrl (body_text rq) in
         \<lparr>answer = sendResponse e f idParam, parsedUrl_id = parsedUrl2, received = r\<rparr>)
      else \<lparr>answer = sendResponse e f idParam, parsedUrl_id = parsedUrl, received = reader0\<rparr>)"

subsection \<open>The server\<close>

definition server :: "env \<Rightarrow> bookingsFile \<Rightarrow> request \<Rightarrow> outcome \<times> disk" where
  "server e f rq =
     (if url rq = ''/api/book'' \<and> req_method rq = ''POST'' then book_handler e f rq
      else if url rq = ''/api/bookings'' \<and> req_method rq = ''GET'' then bookings_handler f
      else if prefix ''/api/delete'' (url rq) then answer (delete_handler e f rq)
      else (Static, Untouched))"


subsection \<open>Notions the properties are stated with\<close>

text \<open>
  A record matches the id when the filter's callback answers \<^verbatim>\<open>false\<close> for it:
  these are the records \<^verbatim>\<open>filter\<close> drops.
\<close>

definition matches :: "jsnum \<Rightarrow> jsval \<Rightarrow> bool" where
  "matches n b = (keeps n b = Inr False)"

text \<open>A small store and a clock reading, for the concrete instances.\<close>

definition ana :: jsval where
  "ana = JObj [(''name'', JStr ''Ana''), (''id'', JNum 1)]"

definition bia :: jsval where
  "bia = JObj [(''name'', JStr ''Bia''), (''id'', JNum 2)]"

definition two_bookings :: bookingsFile where
  "two_bookings = Contents (Json (JArr [ana, bia]))"

definition noon :: env where
  "noon = \<lparr>now = 1700000000000, iso = ''2023-11-14T22:13:20.000Z'', write_ok = True\<rparr>"

definition disk_full :: env where
  "disk_full = \<lparr>now = 1700000000000, iso = ''2023-11-14T22:13:20.000Z'', write_ok = False\<rparr>"

text \<open>The values the specification calls a JSON object.\<close>

fun is_object :: "jsval \<Rightarrow> bool" where
  "is_object (JObj kvs) = True"
| "is_object v = False"

text \<open>Two records with the same id, once as a string and once as a number.\<close>

definition id_as_string :: jsval where
  "id_as_string = JObj [(''name'', JStr ''Caio''), (''id'', JStr ''123'')]"

definition id_as_number :: jsval where
  "id_as_number = JObj [(''name'', JStr ''Davi''), (''id'', JNum 123)]"

definition mixed_ids :: bookingsFile where
  "mixed_ids = Contents (Json (JArr [id_as_string, id_as_number]))"

text \<open>
  \<^verbatim>\<open>POST /api/delete?id=1\<close> with the body \<^verbatim>\<open>{"id":2}\<close>; the same body with no id in
  the url; and a body of one chunk of 1000001 characters.
\<close>

definition override_request :: request where
  "override_request =
     \<lparr>req_method = ''POST'', url = ''/api/delete?id=1'', query_id = Some ''1'',
      chunks = [''{\"id\":2}''], body_text = Json (JObj [(''id'', JNum 2)])\<rparr>"

definition body_only_request :: request where
  "body_only_request =
     \<lparr>req_method = ''POST'', url = ''/api/delete'', query_id = None,
      chunks = [''{\"id\":2}''], body_text = Json (JObj [(''id'', JNum 2)])\<rparr>"

definition oversized_request :: request where
  "oversized_request =
     \<lparr>req_method = ''POST'', url = ''/api/delete?id=1'', query_id = Some ''1'',
      chunks = [replicate 1000001 (CHR ''a'')], body_text = Garbage\<rparr>"

section \<open>Properties\<close>

subsection \<open>Auxiliary facts\<close>

lemma Number_js_examples:
  "Number_js ''1'' = Finite 1"
  "Number_js ''2'' = Finite 2"
  "Number_js ''5'' = Finite 5"
  "Number_js ''123'' = Finite 123"
  "Number_js ''abc'' = NaN"
  by (simp_all add: Number_js_def trim_def is_space_def unsigned_decimal_def mantissa_def
      exponent_def not_exp_def not_dot_def digits_def digit_of_def scale_def)

lemma readBookings_simps:
  "readBookings Absent = JArr []"
  "readBookings (Contents Garbage) = JArr []"
  "readBookings (Contents (Json v)) = v"
  by (simp_all add: readBookings_def readFileSync_def JSON_parse_def)

lemma saveBookings_simps:
  "write_ok e \<Longrightarrow> saveBookings e v = Inr (Contents (Json v))"
  "\<not> write_ok e \<Longrightarrow> saveBookings e v = Inl IOError"
  by (simp_all add: saveBookings_def writeFileSync_def JSON_stringify_def)

text \<open>The sample store and the two environments.\<close>

lemma two_bookings_read: "readBookings two_bookings = JArr [ana, bia]"
  by (simp add: two_bookings_def readBookings_simps)

lemma two_bookings_no_null: "JNull \<notin> set [ana, bia]"
  by (simp add: ana_def bia_def)

lemma mixed_ids_read: "readBookings mixed_ids = JArr [id_as_string, id_as_number]"
  by (simp add: mixed_ids_def readBookings_simps)

lemma mixed_ids_no_null: "JNull \<notin> set [id_as_string, id_as_number]"
  by (simp add: id_as_string_def id_as_number_def)

lemma noon_writes: "write_ok noon"
  by (simp add: noon_def)

lemma disk_full_fails: "\<not> write_ok disk_full"
  by (simp add: disk_full_def)

lemma sample_simps:
  "JNull \<noteq> ana" "JNull \<noteq> bia" "JNull \<noteq> id_as_string" "JNull \<noteq> id_as_number"
  "matches (Finite 1) ana" "\<not> matches (Finite 1) bia"
  "\<not> matches (Finite 2) ana" "matches (Finite 2) bia"
  "\<not> matches (Finite 5) ana" "\<not> matches (Finite 5) bia"
  "\<not> matches (Finite 123) id_as_string" "matches (Finite 123) id_as_number"
  "get_id id_as_string = Inr (Some (JStr ''123''))"
  by (simp_all add: ana_def bia_def id_as_string_def id_as_number_def matches_def keeps_def)

subsection \<open>The store\<close>

lemma book_on_end_reads_only:
  assumes "readBookings f = readBookings g"
  shows "book_on_end e f t = book_on_end e g t"
  unfolding book_on_end_def assms by (rule refl)

lemma sendResponse_reads_only:
  assumes "readBookings f = readBookings g"
  shows "sendResponse e f p = sendResponse e g p"
  unfolding sendResponse_def assms by (rule refl)

text \<open>The server sees the file through \<^verbatim>\<open>readBookings\<close> only.\<close>

lemma server_reads_only:
  assumes "readBookings f = readBookings g"
  shows "server e f rq = server e g rq"
  unfolding server_def book_handler_def bookings_handler_def delete_handler_def Let_def
  by (simp add: book_on_end_reads_only [OF assms] sendResponse_reads_only [OF assms] assms)

text \<open>
  C7. When the file is absent or unreadable, or its text is not valid JSON, the load
  returns the empty collection, not an error; and no request can tell such a file from
  one that holds the empty collection: the server answers and writes the same.
\<close>

theorem load_recovers_empty:
  assumes "f = Absent \<or> f = Contents Garbage"
  shows "readBookings f = JArr [] \<and>
         readBookings f = readBookings (Contents (Json (JArr []))) \<and>
         (\<forall>e rq. server e f rq = server e (Contents (Json (JArr []))) rq)"
proof -
  from assms have r: "readBookings f = JArr []"
    by (auto simp: readBookings_simps)
  then have "readBookings f = readBookings (Contents (Json (JArr [])))"
    by (simp add: readBookings_simps)
  with r show ?thesis
    by (simp add: server_reads_only)
qed

theorem load_recovers_empty_witness:
  "readBookings Absent = JArr [] \<and> readBookings (Contents Garbage) = JArr [] \<and>
   bookings_handler Absent = (json_reply 200 (JArr []), Untouched)"
  using load_recovers_empty [of Absent] load_recovers_empty [of "Contents Garbage"]
  by (simp add: bookings_handler_def)

subsection \<open>Create\<close>


text \<open>The \<^verbatim>\<open>end\<close> listener over a stored collection, by the kind of the parsed body.\<close>

lemma book_on_end_object:
  assumes "readBookings f = JArr bs"
  shows "book_on_end e f (Json (JObj kvs)) =
    (if write_ok e
     then (json_reply 200 (JObj [(''success'', JBool True), (''id'', JNum (of_int (now e)))]),
           Saved (Contents (Json (JArr (bs @
             [JObj (put ''timestamp'' (JStr (iso e)) (put ''id'' (JNum (of_int (now e))) kvs))])))))
     else (json_reply 400 (error_body dados_invalidos), SaveFailed))"
  using assms
  by (simp add: Let_def book_on_end_def JSON_parse_def saveBookings_simps)

lemma book_on_end_non_object:
  assumes "v \<noteq> JNull" and "\<not> is_object v" and "readBookings f = JArr bs"
  shows "book_on_end e f (Json v) =
    (if write_ok e
     then (json_reply 200
             (JObj ((''success'', JBool True) #
                (case id_after_assign v (JNum (of_int (now e))) of
                   None \<Rightarrow> [] | Some i \<Rightarrow> [(''id'', i)]))),
           Saved (Contents (Json (JArr (bs @ [v])))))
     else (json_reply 400 (error_body dados_invalidos), SaveFailed))"
  using assms
  by (cases v) (simp_all add: Let_def book_on_end_def JSON_parse_def saveBookings_simps)







subsection \<open>Delete\<close>

lemma keeps_no_null: "b \<noteq> JNull \<Longrightarrow> keeps n b = Inr (\<not> matches n b)"
  by (cases b) (simp_all add: keeps_def matches_def)

lemma filter_js_keeps:
  "JNull \<notin> set bs \<Longrightarrow> filter_js (keeps n) bs = Inr (filter (\<lambda>b. \<not> matches n b) bs)"
  by (induction bs) (auto simp: keeps_no_null)


lemma length_filter_same:
  "(length (filter (\<lambda>b. \<not> P b) bs) = length bs) = (filter P bs = [])"
proof -
  have "length (filter P bs) + length (filter (\<lambda>b. \<not> P b) bs) = length bs"
    by (rule sum_length_filter_compl)
  then show ?thesis by auto
qed

lemma count_list_filter_kept: "P b \<Longrightarrow> count_list (filter P xs) b = count_list xs b"
  by (induction xs) auto

text \<open>A record matches exactly when its \<^verbatim>\<open>id\<close> is a number and the parameter converts to it.\<close>

lemma matches_number:
  "matches n b = (\<exists>r. get_id b = Inr (Some (JNum r)) \<and> n = Finite r)"
proof (cases "get_id b")
  case (Inl err)
  then show ?thesis by (simp add: matches_def keeps_def)
next
  case (Inr v)
  show ?thesis
  proof (cases v)
    case None
    with Inr show ?thesis by (simp add: matches_def keeps_def)
  next
    case (Some x)
    with Inr show ?thesis
      by (cases x; cases n) (auto simp: matches_def keeps_def)
  qed
qed

lemma matches_NaN: "\<not> matches NaN b"
  by (simp add: matches_number)

lemma sendResponse_no_id:
  "sendResponse e f None = (json_reply 400 (error_body id_nao_especificado), Untouched)"
  "sendResponse e f (Some []) = (json_reply 400 (error_body id_nao_especificado), Untouched)"
  by (simp_all add: sendResponse_def)

text \<open>What \<^verbatim>\<open>sendResponse\<close> does on a collection without \<^verbatim>\<open>null\<close> elements.\<close>

lemma sendResponse_collection:
  assumes "readBookings f = JArr bs" and "JNull \<notin> set bs" and "s \<noteq> []"
  shows "sendResponse e f (Some s) =
    (if filter (matches (Number_js s)) bs = []
     then (json_reply 404 (error_body registro_nao_encontrado), Untouched)
     else if write_ok e
     then (json_reply 200 (JObj [(''success'', JBool True)]),
           Saved (Contents (Json (JArr (filter (\<lambda>b. \<not> matches (Number_js s) b) bs)))))
     else (Uncaught IOError, SaveFailed))"
  using assms
  by (simp add: sendResponse_def filter_js_keeps length_filter_same saveBookings_simps)



text \<open>
  C10. The filter compares with \<^verbatim>\<open>!==\<close> against \<^verbatim>\<open>Number(idParam)\<close>. Over a
  loaded collection, a record whose \<^verbatim>\<open>id\<close> is not a number never matches, and
  whatever collection a delete saves holds that record as often as before; and when
  the parameter converts to \<^verbatim>\<open>NaN\<close> no record matches, so the answer is 404 and
  nothing is written.
\<close>

theorem delete_compares_strictly:
  assumes "readBookings f = JArr bs" and "JNull \<notin> set bs" and "s \<noteq> []"
  shows
    "(\<forall>b \<in> set bs. (\<forall>r. get_id b \<noteq> Inr (Some (JNum r))) \<longrightarrow>
        \<not> matches (Number_js s) b \<and>
        (\<forall>out f2. sendResponse e f (Some s) = (out, Saved f2) \<longrightarrow>
           (\<exists>kept. f2 = Contents (Json (JArr kept)) \<and> count_list kept b = count_list bs b))) \<and>
     (Number_js s = NaN \<longrightarrow>
        (\<forall>b. \<not> matches (Number_js s) b) \<and>
        sendResponse e f (Some s) =
          (json_reply 404 (error_body registro_nao_encontrado), Untouched))"
proof -
  let ?n = "Number_js s"
  have stays: "\<exists>kept. f2 = Contents (Json (JArr kept)) \<and> count_list kept b = count_list bs b"
    if "\<not> matches ?n b" and "sendResponse e f (Some s) = (out, Saved f2)" for b out f2
  proof -
    from that(2) have "f2 = Contents (Json (JArr (filter (\<lambda>x. \<not> matches ?n x) bs)))"
      unfolding sendResponse_collection [OF assms] by (auto split: if_splits)
    moreover from that(1)
    have "count_list (filter (\<lambda>x. \<not> matches ?n x) bs) b = count_list bs b"
      by (rule count_list_filter_kept)
    ultimately show ?thesis by blast
  qed
  have text_id: "\<not> matches ?n b" if "\<forall>r. get_id b \<noteq> Inr (Some (JNum r))" for b
    using that by (simp add: matches_number)
  have nan: "sendResponse e f (Some s) =
      (json_reply 404 (error_body registro_nao_encontrado), Untouched)" if "?n = NaN"
    using that by (simp add: sendResponse_collection [OF assms] matches_NaN)
  have nan_none: "\<not> matches ?n b" if "?n = NaN" for b
    using that by (simp add: matches_NaN)
  from stays text_id nan nan_none show ?thesis by blast
qed

text \<open>
  The delete of id 123 over the two records with that id: the one with the number goes,
  the one with the string stays.
\<close>

lemma delete_keeps_string_id:
  "sendResponse noon mixed_ids (Some ''123'') =
     (json_reply 200 (JObj [(''success'', JBool True)]),
      Saved (Contents (Json (JArr [id_as_string]))))"
  by (simp add: sendResponse_collection [OF mixed_ids_read mixed_ids_no_null]
      Number_js_examples sample_simps noon_writes)

theorem delete_compares_strictly_witness:
  "\<not> matches (Number_js ''123'') id_as_string \<and>
   count_list [id_as_string] id_as_string =
     count_list [id_as_string, id_as_number] id_as_string \<and>
   sendResponse noon two_bookings (Some ''abc'') =
     (json_reply 404 (error_body registro_nao_encontrado), Untouched)"
proof -
  have s: "''123'' \<noteq> []" and t: "''abc'' \<noteq> []" by simp_all
  show ?thesis
    using delete_compares_strictly [OF mixed_ids_read mixed_ids_no_null s, of noon]
      delete_keeps_string_id
      delete_compares_strictly [OF two_bookings_read two_bookings_no_null t, of noon]
    by (simp add: sample_simps Number_js_examples)
qed





text \<open>The answer of a delete is the one for the id of the url, whatever the body holds.\<close>

lemma delete_answer_from_url:
  "answer (delete_handler e f rq) = sendResponse e f (query_id rq)"
  by (simp add: delete_handler_def Let_def)

text \<open>
  C1, at \<^verbatim>\<open>POST /api/delete?id=1\<close> with the body \<^verbatim>\<open>{"id":2}\<close> over a store with
  the records 1 and 2: the body's id reaches \<^verbatim>\<open>parsedUrl\<close>, and the record removed
  is the one of the url, 1; record 2 stays. A delete of id 2, which the body asks for,
  would remove record 2 and keep record 1. With the id in the body only, the answer
  is 400.
\<close>

theorem delete_post_body_id_unused:
  "server noon two_bookings override_request =
     (json_reply 200 (JObj [(''success'', JBool True)]),
      Saved (Contents (Json (JArr [bia])))) \<and>
   parsedUrl_id (delete_handler noon two_bookings override_request) = StringOf (JNum 2) \<and>
   sendResponse noon two_bookings (Some ''2'') =
     (json_reply 200 (JObj [(''success'', JBool True)]),
      Saved (Contents (Json (JArr [ana])))) \<and>
   server noon two_bookings override_request \<noteq> sendResponse noon two_bookings (Some ''2'') \<and>
   server noon two_bookings body_only_request =
     (json_reply 400 (error_body id_nao_especificado), Untouched) \<and>
   parsedUrl_id (delete_handler noon two_bookings body_only_request) = StringOf (JNum 2)"
proof -
  have entry: "delete_on_end entry (Json (JObj [(''id'', JNum 2)])) = StringOf (JNum 2)" for entry
    by (simp add: delete_on_end_def JSON_parse_def)
  have by_url: "server noon two_bookings override_request = sendResponse noon two_bookings (Some ''1'')"
    by (simp add: server_def override_request_def delete_answer_from_url)
  have by_body: "server noon two_bookings body_only_request = sendResponse noon two_bookings None"
    by (simp add: server_def body_only_request_def delete_answer_from_url)
  have removed: "sendResponse noon two_bookings (Some ''1'') =
      (json_reply 200 (JObj [(''success'', JBool True)]),
       Saved (Contents (Json (JArr [bia]))))"
    by (simp add: sendResponse_collection [OF two_bookings_read two_bookings_no_null]
        Number_js_examples sample_simps noon_writes)
  have asked: "sendResponse noon two_bookings (Some ''2'') =
      (json_reply 200 (JObj [(''success'', JBool True)]),
       Saved (Contents (Json (JArr [ana]))))"
    by (simp add: sendResponse_collection [OF two_bookings_read two_bookings_no_null]
        Number_js_examples sample_simps noon_writes)
  have differ: "ana \<noteq> bia"
    by (simp add: ana_def bia_def)
  show ?thesis
    unfolding by_url by_body removed asked
    using differ
    by (simp add: sendResponse_no_id delete_handler_def Let_def entry
        override_request_def body_only_request_def)
qed

subsection \<open>Failed writes\<close>

text \<open>The statuses the handlers write are 200, 400 and 404.\<close>

lemma book_on_end_status:
  "fst (book_on_end e f t) = Reply code ctype payload \<Longrightarrow> code = 200 \<or> code = 400"
  by (auto simp: book_on_end_def json_reply_def Let_def split: sum.splits)

lemma sendResponse_status:
  "fst (sendResponse e f p) = Reply code ctype payload \<Longrightarrow>
     code = 200 \<or> code = 400 \<or> code = 404"
  by (auto simp: sendResponse_def json_reply_def Let_def
      split: option.splits jsval.splits sum.splits if_splits)

lemma server_status:
  "fst (server e f rq) = Reply code ctype payload \<Longrightarrow>
     code = 200 \<or> code = 400 \<or> code = 404"
  using book_on_end_status [of e f "body_text rq" code ctype payload]
    sendResponse_status [of e f "query_id rq" code ctype payload]
  by (auto simp: server_def book_handler_def bookings_handler_def delete_handler_def
      json_reply_def Let_def split: if_splits)

text \<open>
  C4, as the code has it. When the write fails: create, which reaches the write for
  every body that is JSON and not \<^verbatim>\<open>null\<close> over a stored collection, answers 400
  with the message of an invalid payload; delete, which reaches the write when a record
  matches, lets the exception escape and answers nothing. No request is answered 500.
\<close>

theorem save_failure_is_400_or_uncaught:
  assumes "\<not> write_ok e"
  shows
    "(v \<noteq> JNull \<and> readBookings f = JArr bs \<longrightarrow>
        book_on_end e f (Json v) = (json_reply 400 (error_body dados_invalidos), SaveFailed)) \<and>
     (s \<noteq> [] \<and> readBookings f = JArr bs \<and> JNull \<notin> set bs \<and>
      filter (matches (Number_js s)) bs \<noteq> [] \<longrightarrow>
        sendResponse e f (Some s) = (Uncaught IOError, SaveFailed)) \<and>
     (\<forall>rq ctype payload. fst (server e f rq) \<noteq> Reply 500 ctype payload)"
proof -
  have create: "book_on_end e f (Json v) = (json_reply 400 (error_body dados_invalidos), SaveFailed)"
    if "v \<noteq> JNull" and "readBookings f = JArr bs"
  proof (cases "is_object v")
    case True
    then obtain kvs where "v = JObj kvs" by (cases v) simp_all
    with that assms show ?thesis by (simp add: book_on_end_object)
  next
    case False
    with that assms show ?thesis by (simp add: book_on_end_non_object)
  qed
  have delete: "sendResponse e f (Some s) = (Uncaught IOError, SaveFailed)"
    if "s \<noteq> []" and "readBookings f = JArr bs" and "JNull \<notin> set bs"
      and "filter (matches (Number_js s)) bs \<noteq> []"
    using that assms by (simp add: sendResponse_collection)
  have no500: "fst (server e f rq) \<noteq> Reply 500 ctype payload" for rq ctype payload
    using server_status [of e f rq 500 ctype payload] by auto
  from create delete no500 show ?thesis by blast
qed

theorem save_failure_is_400_or_uncaught_witness:
  "book_on_end disk_full two_bookings (Json (JObj [(''name'', JStr ''Caio'')])) =
     (json_reply 400 (error_body dados_invalidos), SaveFailed) \<and>
   sendResponse disk_full two_bookings (Some ''1'') = (Uncaught IOError, SaveFailed)"
  using save_failure_is_400_or_uncaught [OF disk_full_fails,
      of "JObj [(''name'', JStr ''Caio'')]" two_bookings "[ana, bia]" "''1''"]
  by (simp add: two_bookings_read sample_simps Number_js_examples)

text \<open>With the disk full, a create is answered 400 and a delete is not answered.\<close>

theorem save_failure_counterexample:
  "\<not> write_ok disk_full \<and>
   book_on_end disk_full two_bookings (Json (JObj [])) =
     (json_reply 400 (error_body dados_invalidos), SaveFailed) \<and>
   sendResponse disk_full two_bookings (Some ''1'') = (Uncaught IOError, SaveFailed)"
  by (simp add: disk_full_fails sample_simps Number_js_examples
      book_on_end_object [OF two_bookings_read]
      sendResponse_collection [OF two_bookings_read two_bookings_no_null])

subsection \<open>Request bodies\<close>

lemma feed_delete_on_data:
  "feed delete_on_data r cs =
     (if destroyed r then r else \<lparr>body = body r @ concat cs, destroyed = False\<rparr>)"
  by (induction cs arbitrary: r) (simp_all add: delete_on_data_def)

text \<open>The body of a delete is buffered whole, and the connection is never destroyed.\<close>

lemma delete_buffers_everything:
  "req_method rq = ''POST'' \<Longrightarrow>
     received (delete_handler e f rq) = \<lparr>body = concat (chunks rq), destroyed = False\<rparr>"
  by (simp add: delete_handler_def Let_def feed_delete_on_data reader0_def)

text \<open>
  The reader of \<^verbatim>\<open>POST /api/book\<close> keeps its cap: the connection is destroyed
  exactly when the buffered body is longer than 1000000, at the chunk that crosses it,
  and the request is then not answered.
\<close>

lemma feed_book_on_data:
  "destroyed r = (1000000 < length (body r)) \<Longrightarrow>
     destroyed (feed book_on_data r cs) = (1000000 < length (body (feed book_on_data r cs)))"
  by (induction cs arbitrary: r) (simp_all add: book_on_data_def Let_def)

lemma book_body_capped:
  "destroyed (feed book_on_data reader0 cs) =
     (1000000 < length (body (feed book_on_data reader0 cs)))"
  by (rule feed_book_on_data) (simp add: reader0_def)

lemma book_handler_capped:
  "1000000 < length (body (feed book_on_data reader0 (chunks rq))) \<Longrightarrow>
     book_handler e f rq = (Aborted, Untouched)"
  by (simp add: book_handler_def book_body_capped)

text \<open>
  C5, at a \<^verbatim>\<open>POST /api/delete\<close> whose body is one chunk of 1000001 characters: the
  handler buffers all of it, the connection stands, and the request is answered. The
  reader of \<^verbatim>\<open>POST /api/book\<close> destroys the connection on the same chunk.
\<close>

theorem delete_body_has_no_cap:
  "length (body (received (delete_handler noon two_bookings oversized_request))) = 1000001 \<and>
   destroyed (received (delete_handler noon two_bookings oversized_request)) = False \<and>
   server noon two_bookings oversized_request =
     (json_reply 200 (JObj [(''success'', JBool True)]),
      Saved (Contents (Json (JArr [bia])))) \<and>
   destroyed (feed book_on_data reader0 (chunks oversized_request)) = True"
proof -
  have m: "req_method oversized_request = ''POST''"
    and c: "chunks oversized_request = [replicate 1000001 (CHR ''a'')]"
    and q: "query_id oversized_request = Some ''1''"
    and u: "url oversized_request = ''/api/delete?id=1''"
    by (simp_all add: oversized_request_def)
  have buffered: "received (delete_handler noon two_bookings oversized_request) =
      \<lparr>body = replicate 1000001 (CHR ''a''), destroyed = False\<rparr>"
    by (simp add: delete_buffers_everything [OF m] c)
  have answered: "server noon two_bookings oversized_request =
      (json_reply 200 (JObj [(''success'', JBool True)]),
       Saved (Contents (Json (JArr [bia]))))"
    by (simp add: server_def u m delete_answer_from_url q Number_js_examples sample_simps
        noon_writes sendResponse_collection [OF two_bookings_read two_bookings_no_null])
  have cut: "destroyed (feed book_on_data reader0 (chunks oversized_request)) = True"
    by (simp add: c book_on_data_def reader0_def)
  from buffered answered cut show ?thesis by simp
qed

end
